theory Spec2Isabelle
  imports Complex_Main
begin

section \<open>Line quality check (qa\_line/views.py, class CheckQualityLine)\<close>

text \<open>
  The view \<^verbatim>\<open>CheckQualityLine.get\<close> prepares a workspace, loads six layers and tables
  and then runs a fixed sequence of checks. Every check writes leveled lines to a log
  file through the logger; \<^verbatim>\<open>add_response_data\<close> reads the file back and splits each
  line on \<^verbatim>\<open>-\<close> to build the reports of the response.

  Modelling decisions:
  \<^item> a Python \<^verbatim>\<open>str\<close> is a \<^typ>\<open>string\<close> whose characters are code points below 256
    (the Catalan letters of the messages are written \<open>CHR 0xE0\<close> and so on);
  \<^item> a coordinate is a finite double, given by its exact rational value; subtraction and
    \<^verbatim>\<open>round(x, 1)\<close> give the nearest double of the exact result (ties to even), the
    literal \<^verbatim>\<open>0.01\<close> is the double nearest to 1/100;
  \<^item> a layer is the list of its rows in file order, a row is a record of the columns
    the code reads; a nullable column is an \<open>option\<close>;
  \<^item> the verdicts of the libraries (validity of a geometry, \<^verbatim>\<open>crosses\<close>, the spatial
    join, the order \<^verbatim>\<open>sort_values\<close> gives to rows) are inputs;
  \<^item> the class-level dictionary \<^verbatim>\<open>response_data\<close> is shared by the runs of a process:
    a run receives it as the earlier runs left it and returns it updated;
  \<^item> an uncaught Python exception is the left injection of a sum.
\<close>

subsection \<open>Strings\<close>

datatype exn = IndexError | AttributeError | UnboundLocalError | DimensionError | ValueError |
  NotImplementedError

fun py_split :: "char \<Rightarrow> string \<Rightarrow> string list" where
  "py_split c [] = [[]]"
| "py_split c (x # xs) =
     (if x = c then [] # py_split c xs
      else (case py_split c xs of [] \<Rightarrow> [[x]] | w # ws \<Rightarrow> (x # w) # ws))"

definition split_last :: "string \<Rightarrow> string" where
  \<comment> \<open>\<^verbatim>\<open>s.split('-')[-1]\<close>\<close>
  "split_last s = last (py_split (CHR ''-'') s)"

definition endswith :: "string \<Rightarrow> string \<Rightarrow> bool" where
  "endswith s suf = (length suf \<le> length s \<and> drop (length s - length suf) s = suf)"

function str_nat :: "nat \<Rightarrow> string" where
  "str_nat n = (if n < 10 then [''0123456789'' ! n]
                else str_nat (n div 10) @ [''0123456789'' ! (n mod 10)])"
  by pat_completeness auto
termination
  by (relation "measure id") auto

definition is_digit :: "char \<Rightarrow> bool" where
  "is_digit c = (c \<in> set ''0123456789'')"

definition digit_val :: "char \<Rightarrow> nat" where
  "digit_val c = of_char c - 48"

definition int_of_digits :: "string \<Rightarrow> nat" where
  "int_of_digits s = foldl (\<lambda>a c. 10 * a + digit_val c) 0 s"

definition is_space :: "char \<Rightarrow> bool" where
  \<comment> \<open>the white space \<^verbatim>\<open>int()\<close> strips, below code point 256\<close>
  "is_space c =
     (c \<in> set [CHR 0x09, CHR 0x0A, CHR 0x0B, CHR 0x0C, CHR 0x0D, CHR 0x1C, CHR 0x1D, CHR 0x1E,
               CHR 0x1F, CHR 0x20, CHR 0x85, CHR 0xA0])"

definition py_strip :: "string \<Rightarrow> string" where
  "py_strip s = rev (dropWhile is_space (rev (dropWhile is_space s)))"

definition digits_ok :: "string \<Rightarrow> bool" where
  \<comment> \<open>one or more groups of decimal digits, single underscores between the groups\<close>
  "digits_ok s =
     list_all (\<lambda>grp. grp \<noteq> [] \<and> list_all is_digit grp) (py_split (CHR ''_'') s)"

definition py_int :: "string \<Rightarrow> int option" where
  \<comment> \<open>\<^verbatim>\<open>int(s)\<close> in base 10: surrounding white space, an optional sign, digits with
      single underscores between them; None is the ValueError\<close>
  "py_int s =
     (let t = py_strip s;
          negative = (t \<noteq> [] \<and> hd t = CHR ''-'');
          body = (if t \<noteq> [] \<and> (hd t = CHR ''-'' \<or> hd t = CHR ''+'') then tl t else t)
      in if digits_ok body then
           Some ((if negative then - 1 else 1) *
                 int (int_of_digits (filter (\<lambda>c. c \<noteq> CHR ''_'') body)))
         else None)"

definition first_digits :: "string \<Rightarrow> string option" where
  \<comment> \<open>\<^verbatim>\<open>re.search(r'\d+', s)\<close>: the first maximal run of digits, None without a digit\<close>
  "first_digits s =
     (let r = dropWhile (\<lambda>c. \<not> is_digit c) s
      in if r = [] then None else Some (takeWhile is_digit r))"

subsection \<open>The log and its re-parse\<close>

datatype level = INFO | ERROR

type_synonym report = "level \<times> string"

fun levelname :: "level \<Rightarrow> string" where
  "levelname INFO = ''INFO''"
| "levelname ERROR = ''ERROR''"

definition format_report :: "report \<Rightarrow> string" where
  \<comment> \<open>\<^verbatim>\<open>logging.Formatter("%(levelname)s - %(message)s")\<close>\<close>
  "format_report r = levelname (fst r) @ '' - '' @ snd r"

definition log_file :: "report list \<Rightarrow> string" where
  \<comment> \<open>the handler writes each formatted record followed by a newline\<close>
  "log_file entries = concat (map (\<lambda>r. format_report r @ [CHR 0x0A]) entries)"

definition is_linebreak :: "char \<Rightarrow> bool" where
  \<comment> \<open>the line boundaries of \<^verbatim>\<open>str.splitlines\<close> below code point 256\<close>
  "is_linebreak c =
     (c \<in> set [CHR 0x0A, CHR 0x0D, CHR 0x0B, CHR 0x0C, CHR 0x1C, CHR 0x1D, CHR 0x1E, CHR 0x85])"

fun splitlines_from :: "string \<Rightarrow> string \<Rightarrow> string list" where
  "splitlines_from cur [] = (if cur = [] then [] else [rev cur])"
| "splitlines_from cur [x] =
     (if is_linebreak x then [rev cur] else [rev (x # cur)])"
| "splitlines_from cur (x # y # xs) =
     (if x = CHR 0x0D \<and> y = CHR 0x0A then rev cur # splitlines_from [] xs
      else if is_linebreak x then rev cur # splitlines_from [] (y # xs)
      else splitlines_from (x # cur) (y # xs))"

definition splitlines :: "string \<Rightarrow> string list" where
  "splitlines s = splitlines_from [] s"

record item =
  level_txt :: string
  report_message :: string

definition parse_report :: "string \<Rightarrow> exn + item" where
  \<comment> \<open>\<^verbatim>\<open>report.split('-')[0], report.split('-')[1]\<close>\<close>
  "parse_report line =
     (case py_split (CHR ''-'') line of
        a # b # _ \<Rightarrow> Inr \<lparr>level_txt = a, report_message = b\<rparr>
      | _ \<Rightarrow> Inl IndexError)"

fun parse_reports :: "string list \<Rightarrow> exn + item list" where
  "parse_reports [] = Inr []"
| "parse_reports (l # ls) =
     (case parse_report l of
        Inl e \<Rightarrow> Inl e
      | Inr i \<Rightarrow> (case parse_reports ls of Inl e \<Rightarrow> Inl e | Inr is \<Rightarrow> Inr (i # is)))"

record response_data =
  result :: "string option"
  message :: "string option"
  reports :: "item list option"

text \<open>\<^verbatim>\<open>response_data\<close> is a dictionary of the class, mutated in place: a key that a run
  does not store keeps the value an earlier run of the same process gave it; None is
  an absent key.\<close>

definition create_error_response :: "response_data \<Rightarrow> string \<Rightarrow> response_data" where
  "create_error_response rd msg = rd\<lparr>result := Some ''error'', message := Some msg\<rparr>"

definition add_response_data :: "response_data \<Rightarrow> report list \<Rightarrow> exn + response_data" where
  \<comment> \<open>the log file holds the records the run has logged\<close>
  "add_response_data rd entries =
     (case parse_reports (splitlines (log_file entries)) of
        Inl e \<Rightarrow> Inl e
      | Inr items \<Rightarrow> Inr (rd\<lparr>reports := Some items\<rparr>))"

definition errors_of :: "report list \<Rightarrow> report list" where
  \<comment> \<open>the error-level entries of a log, in order\<close>
  "errors_of entries = filter (\<lambda>r. fst r = ERROR) entries"

subsection \<open>Layers\<close>

type_synonym coord = "rat \<times> rat"

definition round_half_even :: "rat \<Rightarrow> int" where
  "round_half_even t =
     (let n = \<lfloor>t\<rfloor>; f = t - of_int n
      in if f < 1 / 2 then n else if 1 / 2 < f then n + 1 else if even n then n else n + 1)"

function bit_length :: "nat \<Rightarrow> nat" where
  "bit_length n = (if n = 0 then 0 else Suc (bit_length (n div 2)))"
  by pat_completeness auto
termination
  by (relation "measure id") auto

definition pow2 :: "int \<Rightarrow> rat" where
  "pow2 e = (if 0 \<le> e then 2 ^ nat e else 1 / 2 ^ nat (- e))"

definition ilog2 :: "rat \<Rightarrow> int" where
  \<comment> \<open>for \<open>x > 0\<close>, the \<open>e\<close> with \<open>2^e \<le> x < 2^(e+1)\<close>\<close>
  "ilog2 x =
     (let pq = quotient_of x;
          e0 = int (bit_length (nat (fst pq))) - int (bit_length (nat (snd pq)))
      in if x < pow2 e0 then e0 - 1 else e0)"

definition fl :: "rat \<Rightarrow> rat" where
  \<comment> \<open>the double nearest to \<open>x\<close>: 53 significant bits, ties to even. The exponent is not
      bounded: the values rounded here are coordinates, their one-decimal roundings and
      differences of two doubles, which are exact where a double would be subnormal.\<close>
  "fl x =
     (if x = 0 then 0
      else (let u = pow2 (ilog2 \<bar>x\<bar> - 52) in of_int (round_half_even (x / u)) * u))"

definition py_round1 :: "rat \<Rightarrow> rat" where
  \<comment> \<open>\<^verbatim>\<open>round(x, 1)\<close>: the exact value rounded half to even at one decimal, then the
      nearest double of that decimal\<close>
  "py_round1 x = fl (of_int (round_half_even (x * 10)) / 10)"

datatype vertex = XY rat rat | XYZ rat rat rat

fun vertex_x :: "vertex \<Rightarrow> rat" where
  "vertex_x (XY x y) = x"
| "vertex_x (XYZ x y z) = x"

fun vertex_y :: "vertex \<Rightarrow> rat" where
  "vertex_y (XY x y) = y"
| "vertex_y (XYZ x y z) = y"

datatype line_geom = LineString "vertex list" | MultiLineString "vertex list list"

fun geom_coords :: "line_geom \<Rightarrow> exn + vertex list" where
  \<comment> \<open>\<^verbatim>\<open>geometry.coords\<close>: a multi-part geometry provides no coordinate sequence\<close>
  "geom_coords (LineString vs) = Inr vs"
| "geom_coords (MultiLineString parts) = Inl NotImplementedError"

fun geom_is_empty :: "line_geom \<Rightarrow> bool" where
  "geom_is_empty (LineString vs) = (vs = [])"
| "geom_is_empty (MultiLineString parts) = list_all (\<lambda>part. part = []) parts"

fun is_multipart :: "line_geom \<Rightarrow> bool" where
  \<comment> \<open>\<^verbatim>\<open>geom_type == 'MultiLineString'\<close>\<close>
  "is_multipart (LineString vs) = False"
| "is_multipart (MultiLineString parts) = True"

record tram =
  tram_ID :: string
  tram_ID_LINIA :: int
  tram_ID_FITA1 :: string
  tram_ID_FITA2 :: string
  tram_geometry :: line_geom
  tram_is_valid :: bool

record ref_tram =
  ref_id_linia :: int
  ref_geometry :: line_geom

record punt =
  punt_ID_PUNT :: string
  punt_ETIQUETA :: string
  punt_x :: rat
  punt_y :: rat
  punt_z :: "rat option"
  punt_FOTOS :: "string option"
  punt_CONTACTE :: "string option"
  punt_is_empty :: bool
  punt_is_valid :: bool

record proposta =
  pp_ID_PUNT :: string
  pp_PFF :: "int option"
  pp_ESFITA :: "int option"
  pp_ORDPF :: "int option"

record puntfit =
  pf_ID_PUNT :: string
  pf_ID_FITA :: string
  pf_TROBADA :: "string option"
  pf_AUX :: "string option"

text \<open>What the libraries compute: \<^verbatim>\<open>crosses\<close> of two geometries, the left rows of
  \<^verbatim>\<open>gpd.sjoin\<close> under a predicate, the rows as \<^verbatim>\<open>sort_values\<close> orders them by a column
  of keys (its default sort need not keep tied rows in their order), and the text Python
  prints for the \<^verbatim>\<open>geoms\<close> of a multi-part geometry.\<close>

record library =
  crosses :: "line_geom \<Rightarrow> line_geom \<Rightarrow> bool"
  sjoin :: "tram list \<Rightarrow> ref_tram list \<Rightarrow> string \<Rightarrow> tram list"
  sort_values :: "nat list \<Rightarrow> punt list \<Rightarrow> punt list"
  geoms_str :: "vertex list list \<Rightarrow> string"

record workspace =
  line_id :: string
  line_id_txt :: string
  current_date :: string
  tram_line_mem :: "ref_tram list"
  fita_mem :: "int list"
  lin_tram_fields :: "string list"
  lin_tram_ppta :: "tram list"
  punt_line :: "punt list"
  p_proposta :: "proposta list"
  punt_fit :: "puntfit list"
  photo_folder :: "string list"

subsection \<open>Dictionaries\<close>

text \<open>A Python dict keeps insertion order; storing under a key already present replaces the
  value in place.\<close>

fun dict_set :: "('k \<times> 'v) list \<Rightarrow> 'k \<Rightarrow> 'v \<Rightarrow> ('k \<times> 'v) list" where
  "dict_set [] k v = [(k, v)]"
| "dict_set ((k', v') # d) k v =
     (if k' = k then (k, v) # d else (k', v') # dict_set d k v)"

definition dict_of :: "('k \<times> 'v) list \<Rightarrow> ('k \<times> 'v) list" where
  "dict_of kvs = foldl (\<lambda>d kv. dict_set d (fst kv) (snd kv)) [] kvs"

subsection \<open>Derived structures\<close>

definition get_ppf_list :: "workspace \<Rightarrow> string list" where
  "get_ppf_list ws = map pp_ID_PUNT (filter (\<lambda>r. pp_PFF r = Some 1) (p_proposta ws))"

definition get_founded_points_dict :: "workspace \<Rightarrow> (string \<times> string) list option" where
  \<comment> \<open>None is the \<^verbatim>\<open>False\<close> the source returns when no row has TROBADA = '1'\<close>
  "get_founded_points_dict ws =
     (let points_founded = filter (\<lambda>r. pf_TROBADA r = Some ''1'') (punt_fit ws)
      in if points_founded \<noteq> [] then
           Some (dict_of (map (\<lambda>r. (pf_ID_FITA r, pf_ID_PUNT r))
                   (filter (\<lambda>r. pf_ID_PUNT r \<in> set (get_ppf_list ws)) points_founded)))
         else None)"

definition truthy_dict :: "(string \<times> string) list option \<Rightarrow> bool" where
  \<comment> \<open>\<^verbatim>\<open>if self.founded_points_dict:\<close> is false for \<^verbatim>\<open>False\<close> and for the empty dict\<close>
  "truthy_dict d = (case d of None \<Rightarrow> False | Some kvs \<Rightarrow> kvs \<noteq> [])"

definition get_round_point_coordinates :: "workspace \<Rightarrow> (string \<times> coord) list" where
  "get_round_point_coordinates ws =
     dict_of (zip (map punt_ID_PUNT (punt_line ws))
                  (zip (map (\<lambda>p. py_round1 (punt_x p)) (punt_line ws))
                       (map (\<lambda>p. py_round1 (punt_y p)) (punt_line ws))))"

fun collect_coords :: "tram list \<Rightarrow> exn + vertex list" where
  "collect_coords [] = Inr []"
| "collect_coords (t # trams) =
     (case geom_coords (tram_geometry t) of
        Inl e \<Rightarrow> Inl e
      | Inr tram_coords \<Rightarrow>
          (case collect_coords trams of Inl e \<Rightarrow> Inl e | Inr vs \<Rightarrow> Inr (tram_coords @ vs)))"

fun round_vertices :: "vertex list \<Rightarrow> exn + coord list" where
  \<comment> \<open>\<^verbatim>\<open>[(round(x, 1), round(y, 1)) for x, y in ...]\<close>: a vertex with a z coordinate
      does not unpack into two names\<close>
  "round_vertices [] = Inr []"
| "round_vertices (XY x y # vs) =
     (case round_vertices vs of
        Inl e \<Rightarrow> Inl e
      | Inr cs \<Rightarrow> Inr ((py_round1 x, py_round1 y) # cs))"
| "round_vertices (XYZ x y z # vs) = Inl ValueError"

definition get_round_line_coordinates :: "workspace \<Rightarrow> exn + coord list" where
  "get_round_line_coordinates ws =
     (case collect_coords (lin_tram_ppta ws) of
        Inl e \<Rightarrow> Inl e
      | Inr line_coords_no_rounded \<Rightarrow> round_vertices line_coords_no_rounded)"

subsection \<open>Checks before the gate\<close>

abbreviation a_grave :: string where "a_grave \<equiv> [CHR 0xE0]"
abbreviation e_grave :: string where "e_grave \<equiv> [CHR 0xE8]"
abbreviation e_acute :: string where "e_acute \<equiv> [CHR 0xE9]"
abbreviation i_acute :: string where "i_acute \<equiv> [CHR 0xED]"
abbreviation i_diaer :: string where "i_diaer \<equiv> [CHR 0xEF]"
abbreviation o_grave :: string where "o_grave \<equiv> [CHR 0xF2]"
abbreviation o_acute :: string where "o_acute \<equiv> [CHR 0xF3]"

definition write_first_report :: "workspace \<Rightarrow> report list" where
  "write_first_report ws =
     [(INFO, ''ID Linia : '' @ line_id_txt ws @ '' |  Data i hora CQ : '' @ current_date ws)]"

definition check_line_id_exists :: "workspace \<Rightarrow> exn + report list" where
  "check_line_id_exists ws =
     (case py_int (line_id ws) of
        None \<Rightarrow> Inl ValueError
      | Some n \<Rightarrow>
          (let line_id_in_lin_tram = (n \<in> set (map ref_id_linia (tram_line_mem ws)));
               line_id_in_fita_g = (n \<in> set (fita_mem ws))
           in Inr [if line_id_in_fita_g \<and> line_id_in_lin_tram then
                     (ERROR, ''L'ID Linia introdu'' @ i_diaer @ ''t est'' @ a_grave @
                             '' en fita_mem i tram_linia_mem'')
                   else if line_id_in_fita_g \<and> \<not> line_id_in_lin_tram then
                     (ERROR, ''L'ID Linia introdu'' @ i_diaer @ ''t est'' @ a_grave @
                             '' en fita_mem per'' @ o_grave @ '' no en lin_tram_mem'')
                   else if \<not> line_id_in_fita_g \<and> line_id_in_lin_tram then
                     (ERROR, ''L'ID Linia introdu'' @ i_diaer @ ''t no est'' @ a_grave @
                             '' en fita_mem per'' @ o_grave @ '' s'' @ i_acute @
                             '' en lin_tram_mem'')
                   else
                     (INFO, ''L'ID Linia no est'' @ a_grave @
                            '' repetit a fita_mem i lin_tram_mem de SIDM3'')]))"

definition true_fields :: "string list" where
  "true_fields = [''ID_LINIA'', ''ID'', ''DATA'', ''COMENTARI'', ''P1'', ''P2'', ''P3'', ''P4'',
                  ''PF'', ''ID_FITA1'', ''ID_FITA2'', ''geometry'']"

definition field_match :: "string list \<Rightarrow> nat" where
  "field_match lin_tram_fields' = length (filter (\<lambda>field. field \<in> set true_fields) lin_tram_fields')"

definition check_fields_lin_tram_ppta :: "workspace \<Rightarrow> bool \<times> report list" where
  "check_fields_lin_tram_ppta ws =
     (if field_match (lin_tram_fields ws) = length true_fields then
        (True, [(INFO, ''L'estructura de camps de Lin_TramPpta '' @ e_acute @ ''s correcte'')])
      else
        (False, [(ERROR, ''L'estructura de camps de Lin_TramPpta NO '' @ e_acute @ ''s correcte'')]))"

definition check_fields_content_lint_tram_ppta :: "workspace \<Rightarrow> exn + report list" where
  "check_fields_content_lint_tram_ppta ws =
     (case py_int (line_id ws) of
        None \<Rightarrow> Inl ValueError
      | Some n \<Rightarrow>
          (let line_id_error = (filter (\<lambda>t. tram_ID_LINIA t \<noteq> n) (lin_tram_ppta ws) \<noteq> []);
               id_fita_error = (filter (\<lambda>t. tram_ID_FITA1 t = ''1'') (lin_tram_ppta ws) \<noteq> [] \<or>
                                filter (\<lambda>t. tram_ID_FITA2 t = ''1'') (lin_tram_ppta ws) \<noteq> [])
           in Inr ((if line_id_error then
                      [(ERROR, ''Existeixen trams de linia amb l'ID_LINIA d'una altra linia'')]
                    else []) @
                   (if id_fita_error then
                      [(ERROR, ''El camp ID_FITA d'algun dels trams de la linia no '' @ e_acute @
                               ''s v'' @ a_grave @ ''lid'')]
                    else []) @
                   (if \<not> line_id_error \<and> \<not> id_fita_error then
                      [(INFO, ''Els camps de Lin_TramPpta estan correctament emplenats'')]
                    else []))))"

definition check_lin_tram_ppta_layer :: "workspace \<Rightarrow> exn + (bool \<times> report list)" where
  "check_lin_tram_ppta_layer ws =
     (let fields_lin_tram_ppta_ok = check_fields_lin_tram_ppta ws
      in if \<not> fst fields_lin_tram_ppta_ok then Inr (False, snd fields_lin_tram_ppta_ok)
         else (case check_fields_content_lint_tram_ppta ws of
                 Inl e \<Rightarrow> Inl e
               | Inr l \<Rightarrow> Inr (True, snd fields_lin_tram_ppta_ok @ l)))"

subsection \<open>Geometry and attribute checks\<close>

definition check_lin_tram_geometry :: "library \<Rightarrow> workspace \<Rightarrow> report list" where
  \<comment> \<open>the ring test of the source reads \<^verbatim>\<open>is_empty\<close> again\<close>
  "check_lin_tram_geometry g ws =
     (let empty_features = filter (\<lambda>t. geom_is_empty (tram_geometry t)) (lin_tram_ppta ws);
          ring_features = filter (\<lambda>t. geom_is_empty (tram_geometry t)) (lin_tram_ppta ws);
          multipart = filter (\<lambda>t. is_multipart (tram_geometry t)) (lin_tram_ppta ws)
      in map (\<lambda>t. (ERROR, ''      El tram '' @ tram_ID t @ '' est'' @ a_grave @ '' buit''))
           empty_features @
         map (\<lambda>t. (ERROR, ''      El tram '' @ tram_ID t @ '' t'' @ e_acute @
                           '' un anell interior'')) ring_features @
         map (\<lambda>t. (ERROR, ''      El tram '' @ tram_ID t @ '' '' @ e_acute @
                           ''s multi-part i t'' @ e_acute @ '' '' @
                           (case tram_geometry t of
                              LineString vs \<Rightarrow> []
                            | MultiLineString parts \<Rightarrow> geoms_str g parts) @ '' parts''))
           multipart @
         (if empty_features = [] \<and> ring_features = [] \<and> multipart = [] then
            [(INFO, ''      No s'ha detectat cap error de geometria a Lin_TramPpta'')]
          else []))"

definition check_points_geometry :: "workspace \<Rightarrow> report list" where
  "check_points_geometry ws =
     (let empty_features = filter punt_is_empty (punt_line ws);
          invalid_features = filter (\<lambda>p. \<not> punt_is_valid p) (punt_line ws)
      in map (\<lambda>p. (ERROR, ''      El punt '' @ punt_ID_PUNT p @ '' est'' @ a_grave @ '' buit''))
           empty_features @
         map (\<lambda>p. (ERROR, ''      El punt '' @ punt_ID_PUNT p @ '' no t'' @ e_acute @
                           '' una geometria v'' @ a_grave @ ''lida'')) invalid_features @
         (if empty_features = [] \<and> invalid_features = [] then
            [(INFO, ''      No s'ha detectat cap error de geometria a la capa Punt'')]
          else []))"

definition check_layers_geometry :: "library \<Rightarrow> workspace \<Rightarrow> report list" where
  "check_layers_geometry g ws =
     [(INFO, ''Comprovaci'' @ o_acute @ '' de les geometries...''),
      (INFO, ''Lin_Tram_Proposta :'')] @
     check_lin_tram_geometry g ws @
     [(INFO, ''Punt :'')] @
     check_points_geometry ws"

fun info_vertexs_loop :: "tram list \<Rightarrow> exn + report list" where
  "info_vertexs_loop [] = Inr []"
| "info_vertexs_loop (feature # rest) =
     (case geom_coords (tram_geometry feature) of
        Inl e \<Rightarrow> Inl e
      | Inr tram_coords \<Rightarrow>
          (case info_vertexs_loop rest of
             Inl e \<Rightarrow> Inl e
           | Inr l \<Rightarrow>
               Inr ((INFO, ''      Tram ID : '' @ tram_ID feature @ ''  |  N'' @ [CHR 0xBA] @
                           '' v'' @ e_grave @ ''rtex : '' @ str_nat (length tram_coords)) # l)))"

definition info_vertexs_line :: "workspace \<Rightarrow> exn + report list" where
  "info_vertexs_line ws =
     (case info_vertexs_loop (lin_tram_ppta ws) of
        Inl e \<Rightarrow> Inl e
      | Inr l \<Rightarrow> Inr ((INFO, ''V'' @ e_grave @ ''rtexs de la linia :'') # l))"

definition decim_dif :: "rat \<Rightarrow> rat" where
  \<comment> \<open>\<^verbatim>\<open>abs(point_x - round(point_x, 1))\<close>, the subtraction rounded to a double\<close>
  "decim_dif c = \<bar>fl (c - py_round1 c)\<bar>"

definition decim_bad :: "punt \<Rightarrow> bool" where
  \<comment> \<open>\<^verbatim>\<open>dif_x > 0.01 or dif_y > 0.01\<close>\<close>
  "decim_bad p = (decim_dif (punt_x p) > fl (1 / 100) \<or> decim_dif (punt_y p) > fl (1 / 100))"

definition decim_msg :: "punt \<Rightarrow> report" where
  "decim_msg p =
     (ERROR, ''La fita '' @ split_last (punt_ETIQUETA p) @ ''  |  ID_PUNT : '' @
             split_last (punt_ID_PUNT p) @ '' no est'' @ a_grave @ '' correctament decimetritzada'')"

fun check_points_decimals_loop :: "string list \<Rightarrow> punt list \<Rightarrow> bool \<times> report list" where
  "check_points_decimals_loop ppf_list [] = (True, [])"
| "check_points_decimals_loop ppf_list (feature # rest) =
     (let r = check_points_decimals_loop ppf_list rest
      in if punt_ID_PUNT feature \<in> set ppf_list \<and> decim_bad feature
         then (False, decim_msg feature # snd r) else r)"

definition check_points_decimals :: "workspace \<Rightarrow> report list" where
  "check_points_decimals ws =
     (let r = check_points_decimals_loop (get_ppf_list ws) (punt_line ws)
      in snd r @ (if fst r then [(INFO, ''Les fites estan correctament decimetritzades'')] else []))"

definition count_points :: "workspace \<Rightarrow> report list" where
  "count_points ws =
     (let n_not_final_points = length (filter (\<lambda>r. pp_PFF r = Some 0) (p_proposta ws));
          n_proposta_points =
            length (filter (\<lambda>r. pp_PFF r = Some 1 \<and> pp_ESFITA r = Some 1) (p_proposta ws));
          n_auxiliary_points =
            length (filter (\<lambda>r. pp_PFF r = Some 1 \<and> pp_ESFITA r = Some 0) (p_proposta ws))
      in [(INFO, ''      Fites PPF reals: '' @ str_nat n_proposta_points),
          (INFO, ''      Fites PPF auxiliars: '' @ str_nat n_auxiliary_points),
          (INFO, ''      Fites no finals: '' @ str_nat n_not_final_points)])"

definition ordpf_msg :: "proposta \<Rightarrow> report" where
  "ordpf_msg r =
     (ERROR, ''      El camp ORDPF del punt '' @ split_last (pp_ID_PUNT r) @
             '' a la taula PUNT_FIT '' @ e_acute @ ''s nul.'')"

definition check_ordpf :: "proposta list \<Rightarrow> bool \<times> report list" where
  "check_ordpf p_proposta_df =
     (let points_ordpf_null = filter (\<lambda>r. pp_ORDPF r = None) p_proposta_df
      in (points_ordpf_null = [], map ordpf_msg points_ordpf_null))"

definition real_points_msg :: "proposta \<Rightarrow> report" where
  "real_points_msg r =
     (ERROR, ''      El punt amb ID PUNT : '' @ split_last (pp_ID_PUNT r) @ '' est'' @ a_grave @
             '' mal indicat a P_Proposta: sembla que es tracta d'una fita auxiliar indicada com a fita real'')"

definition bad_auxiliary_point :: "proposta \<Rightarrow> bool" where
  "bad_auxiliary_point r = (pp_PFF r = Some 1 \<and> pp_ORDPF r = Some 0 \<and> pp_ESFITA r \<noteq> Some 0)"

definition check_real_points :: "proposta list \<Rightarrow> bool \<times> report list" where
  "check_real_points p_proposta_df =
     (let bad_auxiliary_points = filter bad_auxiliary_point p_proposta_df
      in (bad_auxiliary_points = [], map real_points_msg bad_auxiliary_points))"

definition info_p_proposta :: "workspace \<Rightarrow> report list" where
  "info_p_proposta ws =
     (let ordpf_valid = check_ordpf (p_proposta ws);
          real_points_valid = check_real_points (p_proposta ws)
      in [(INFO, ''Informaci'' @ o_acute @ '' de les fites :'')] @
         count_points ws @
         snd ordpf_valid @
         snd real_points_valid @
         (if fst ordpf_valid \<and> fst real_points_valid then
            [(INFO, ''Tots els registre de la taula P_Proposta s'' @ o_acute @ ''n v'' @ a_grave @
                    ''lids.'')]
          else []))"

subsection \<open>Found-marker checks\<close>

definition check_photo_exists :: "(string \<times> string) list \<Rightarrow> workspace \<Rightarrow> report list" where
  "check_photo_exists founded_points_dict ws =
     (let points_with_photo_list =
            map punt_ID_PUNT (filter (\<lambda>p. punt_FOTOS p \<noteq> None) (punt_line ws));
          ppf_with_photo_list =
            filter (\<lambda>point_id. point_id \<in> set (get_ppf_list ws)) points_with_photo_list;
          founded_points_no_photo =
            filter (\<lambda>kv. snd kv \<notin> set ppf_with_photo_list) founded_points_dict
      in if founded_points_no_photo = [] then
           [(INFO, ''Totes les fites trobades tenen fotografia.'')]
         else
           map (\<lambda>kv. (ERROR, ''      La fita '' @ split_last (fst kv) @ ''  |  ID PUNT : '' @
                             split_last (snd kv) @ '' '' @ e_acute @ ''s trobada per'' @ o_grave @
                             '' no t'' @ e_acute @ '' cap fotografia indicada.''))
             founded_points_no_photo)"

definition check_photo_name :: "workspace \<Rightarrow> report list" where
  "check_photo_name ws =
     (let folder_photos_filenames =
            filter (\<lambda>f. endswith f ''.jpg'' \<or> endswith f ''.JPG'') (photo_folder ws);
          founded_points_photos =
            concat (map (\<lambda>p. case punt_FOTOS p of
                                None \<Rightarrow> []
                              | Some photo \<Rightarrow>
                                  if punt_ID_PUNT p \<in> set (get_ppf_list ws) then [photo] else [])
                      (punt_line ws));
          missing = filter (\<lambda>photo_filename. photo_filename \<notin> set folder_photos_filenames)
                      founded_points_photos
      in map (\<lambda>photo_filename.
                (ERROR, ''La fotografia '' @ photo_filename @ '' no est'' @ a_grave @
                        '' a la carpeta de Fotografies.'')) missing @
         (if missing = [] then
            [(INFO, ''Totes les fotografies informades a la capa Punt estan a la carpeta de Fotografies.'')]
          else []))"

fun ppf_z_dict_loop ::
  "string list \<Rightarrow> punt list \<Rightarrow> (string \<times> string) list \<Rightarrow> exn + (string \<times> string) list" where
  "ppf_z_dict_loop ppf_list [] d = Inr d"
| "ppf_z_dict_loop ppf_list (feature # rest) d =
     (case punt_z feature of
        None \<Rightarrow> Inl DimensionError
      | Some z_coord \<Rightarrow>
          if z_coord > 0 \<and> punt_ID_PUNT feature \<in> set ppf_list
          then ppf_z_dict_loop ppf_list rest
                 (dict_set d (punt_ETIQUETA feature) (punt_ID_PUNT feature))
          else ppf_z_dict_loop ppf_list rest d)"

definition check_cota_fita :: "(string \<times> string) list \<Rightarrow> workspace \<Rightarrow> exn + report list" where
  \<comment> \<open>reading \<^verbatim>\<open>.z\<close> of a point without a z coordinate raises\<close>
  "check_cota_fita founded_points_dict ws =
     (case ppf_z_dict_loop (get_ppf_list ws) (punt_line ws) [] of
        Inl e \<Rightarrow> Inl e
      | Inr ppf_z_dict \<Rightarrow>
          (let not_found = filter (\<lambda>kv. snd kv \<notin> set (map snd founded_points_dict)) ppf_z_dict
           in Inr (map (\<lambda>kv. (ERROR, ''La F '' @ split_last (fst kv) @ ''  |  ID PUNT : '' @
                                     split_last (snd kv) @ '' t'' @ e_acute @
                                     '' coordenada Z per'' @ o_grave @ '' no '' @ e_acute @
                                     ''s fita trobada.'')) not_found @
                   (if not_found = [] then
                      [(INFO, ''Totes les fites amb coordenada Z s'' @ o_acute @ ''n trobades'')]
                    else []))))"

definition check_found_points :: "(string \<times> string) list \<Rightarrow> workspace \<Rightarrow> exn + report list" where
  "check_found_points founded_points_dict ws =
     (case check_cota_fita founded_points_dict ws of
        Inl e \<Rightarrow> Inl e
      | Inr l \<Rightarrow> Inr (check_photo_exists founded_points_dict ws @ check_photo_name ws @ l))"

subsection \<open>Three-municipality points and referential check\<close>

definition etiqueta_int :: "string \<Rightarrow> nat option" where
  \<comment> \<open>\<^verbatim>\<open>int(re.search(r'\d+', i).group())\<close>; None is the AttributeError on no match\<close>
  "etiqueta_int i = map_option int_of_digits (first_digits i)"

definition py_truthy :: "string option \<Rightarrow> bool" where
  "py_truthy v = (case v of None \<Rightarrow> False | Some s \<Rightarrow> s \<noteq> [])"

definition check_3termes :: "library \<Rightarrow> workspace \<Rightarrow> exn + report list" where
  "check_3termes g ws =
     (if None \<in> set (map (\<lambda>p. etiqueta_int (punt_ETIQUETA p)) (punt_line ws)) then
        Inl AttributeError
      else
        (let etiquetes_int =
               map (\<lambda>p. case etiqueta_int (punt_ETIQUETA p) of None \<Rightarrow> 0 | Some n \<Rightarrow> n)
                 (punt_line ws);
             sorted_points_df =
               filter (\<lambda>p. punt_ID_PUNT p \<in> set (get_ppf_list ws))
                 (sort_values g etiquetes_int (punt_line ws));
             n_informed_3t_points = length (filter (\<lambda>p. punt_CONTACTE p \<noteq> None) (punt_line ws))
         in case sorted_points_df of
              [] \<Rightarrow> Inl IndexError
            | first_point # _ \<Rightarrow>
                Inr [if py_truthy (punt_CONTACTE first_point) \<and>
                        py_truthy (punt_CONTACTE (last sorted_points_df))
                     then (INFO, ''Les fites 3T tenen informat el camp CONTACTE.'')
                     else (ERROR, ''Hi ha fites 3T que no tenen informat el camp CONTACTE.''),
                     (INFO, ''Hi ha un total de '' @ str_nat n_informed_3t_points @
                            '' fites amb el camp CONTACTE informat.'')]))"

definition p_proposta_msg :: "string \<Rightarrow> report" where
  "p_proposta_msg point_id =
     (ERROR, ''El registre amb ID PUNT : '' @ point_id @
             '' de la taula P_PROPOSTA no est'' @ a_grave @ '' a la capa Punt.'')"

definition punt_fit_msg :: "string \<Rightarrow> report" where
  "punt_fit_msg point_id =
     (ERROR, ''El registre amb ID PUNT : '' @ point_id @
             '' de la taula PUNT_FIT no est'' @ a_grave @ '' a la capa Punt.'')"

text \<open>The first loop leaves its variable \<^verbatim>\<open>point_id\<close> behind: the identifier of the last
  row, cut after its last \<^verbatim>\<open>-\<close> when that row was reported; unbound (None) when the table
  is empty. The second loop reads that variable, not its own \<^verbatim>\<open>point_id_\<close>.\<close>

fun p_proposta_loop ::
  "string list \<Rightarrow> proposta list \<Rightarrow> string option \<Rightarrow> string option \<times> report list" where
  "p_proposta_loop points_id_list [] point_id = (point_id, [])"
| "p_proposta_loop points_id_list (feature # rest) point_id =
     (if pp_ID_PUNT feature \<notin> set points_id_list then
        (let r = p_proposta_loop points_id_list rest (Some (split_last (pp_ID_PUNT feature)))
         in (fst r, p_proposta_msg (split_last (pp_ID_PUNT feature)) # snd r))
      else p_proposta_loop points_id_list rest (Some (pp_ID_PUNT feature)))"

fun punt_fit_loop :: "string list \<Rightarrow> string option \<Rightarrow> puntfit list \<Rightarrow> exn + report list" where
  "punt_fit_loop points_id_list point_id [] = Inr []"
| "punt_fit_loop points_id_list point_id (feature # rest) =
     (if pf_ID_PUNT feature \<notin> set points_id_list then
        (case point_id of
           None \<Rightarrow> Inl UnboundLocalError
         | Some pid \<Rightarrow>
             (case punt_fit_loop points_id_list point_id rest of
                Inl e \<Rightarrow> Inl e
              | Inr l \<Rightarrow> Inr (punt_fit_msg (split_last pid) # l)))
      else punt_fit_loop points_id_list point_id rest)"

definition check_relation_points_tables :: "workspace \<Rightarrow> exn + report list" where
  "check_relation_points_tables ws =
     (let points_id_list = map punt_ID_PUNT (punt_line ws);
          r = p_proposta_loop points_id_list (p_proposta ws) None
      in case punt_fit_loop points_id_list (fst r) (punt_fit ws) of
           Inl e \<Rightarrow> Inl e
         | Inr l \<Rightarrow>
             Inr ([(INFO, ''Comprovant correspond'' @ e_grave @
                          ''ncia entre les taules i la capa Punt...'')] @
                  snd r @
                  (if snd r = [] then
                     [(INFO, ''      Correspond'' @ e_grave @
                             ''ncia OK entre els punts de P_PROPOSTA i Punt.'')]
                   else []) @
                  l @
                  (if l = [] then
                     [(INFO, ''      Correspond'' @ e_grave @
                             ''ncia OK entre els punts de PUNT_FIT i Punt.'')]
                   else [])))"

subsection \<open>Topology\<close>

definition check_line_crosses_itself :: "library \<Rightarrow> workspace \<Rightarrow> report list" where
  "check_line_crosses_itself g ws =
     (let invalid_features = filter (\<lambda>t. \<not> tram_is_valid t) (lin_tram_ppta ws);
          crossing =
            concat (map (\<lambda>t. map (\<lambda>t'. (t, t'))
                               (filter (\<lambda>t'. crosses g (tram_geometry t) (tram_geometry t'))
                                  (filter (\<lambda>t'. tram_geometry t' \<noteq> tram_geometry t)
                                     (lin_tram_ppta ws))))
                      (lin_tram_ppta ws))
      in map (\<lambda>t. (ERROR, ''      El tram '' @ tram_ID t @ '' de la l'' @ i_acute @
                          ''nia s'intersecta o toca a s'' @ i_acute @ '' mateix.''))
           invalid_features @
         map (\<lambda>tt. (ERROR, ''      El tram '' @ tram_ID (fst tt) @ '' de la l'' @ i_acute @
                           ''nia talla el tram '' @ tram_ID (snd tt) @ '' de la mateixa l'' @
                           i_acute @ ''nia.'')) crossing @
         (if invalid_features = [] \<and> crossing = [] then
            [(INFO, ''      Els trams de la linia no s'intersecten o toquen a s'' @ i_acute @
                    '' mateixos.'')]
          else []))"

definition intersects_msg :: "string \<Rightarrow> report" where
  "intersects_msg tram_id =
     (ERROR, ''      El tram '' @ tram_id @ '' de la l'' @ i_acute @
             ''nia talla algun tram de la base de dades.'')"

definition overlaps_msg :: "string \<Rightarrow> report" where
  "overlaps_msg tram_id =
     (ERROR, ''      El tram '' @ tram_id @ '' de la l'' @ i_acute @
             ''nia es sobreposa a algun tram de la base de dades.'')"

definition check_line_intersects_db :: "library \<Rightarrow> workspace \<Rightarrow> report list" where
  "check_line_intersects_db g ws =
     (let features_intersects_db = sjoin g (lin_tram_ppta ws) (tram_line_mem ws) ''contains''
      in if features_intersects_db \<noteq> [] then
           map (\<lambda>feature. intersects_msg (tram_ID feature)) features_intersects_db
         else
           [(INFO, ''      Els trams de la linia no intersecten cap tram de la base de dades.'')])"

definition check_line_overlaps_db :: "library \<Rightarrow> workspace \<Rightarrow> report list" where
  "check_line_overlaps_db g ws =
     (let features_overlaps_db = sjoin g (lin_tram_ppta ws) (tram_line_mem ws) ''contains''
      in if features_overlaps_db \<noteq> [] then
           map (\<lambda>feature. overlaps_msg (tram_ID feature)) features_overlaps_db
         else
           [(INFO, ''      Els trams de la linia no es sobreposen a cap tram de la base de dades.'')])"

definition round_coord :: "vertex \<Rightarrow> coord" where
  \<comment> \<open>\<^verbatim>\<open>(round(v[0], 1), round(v[1], 1))\<close>\<close>
  "round_coord v = (py_round1 (vertex_x v), py_round1 (vertex_y v))"

definition py_or :: "coord \<Rightarrow> coord \<Rightarrow> coord" where
  \<comment> \<open>\<^verbatim>\<open>a or b\<close> is \<^verbatim>\<open>a\<close> when \<^verbatim>\<open>a\<close> is truthy, and a tuple of two numbers always is\<close>
  "py_or a b = a"

definition endpoint_msg :: "string \<Rightarrow> report" where
  "endpoint_msg tram_id =
     (ERROR, ''      Algun dels punts finals del tram '' @ tram_id @
             '' no coincideixen amb una fita de la capa Punt.'')"

fun check_endpoint_loop :: "coord list \<Rightarrow> tram list \<Rightarrow> exn + report list" where
  "check_endpoint_loop values [] = Inr []"
| "check_endpoint_loop values (feature # rest) =
     (case geom_coords (tram_geometry feature) of
        Inl e \<Rightarrow> Inl e
      | Inr [] \<Rightarrow> Inl IndexError
      | Inr (first_endpoint_no_rounded # others) \<Rightarrow>
          (let first_endpoint = round_coord first_endpoint_no_rounded;
               last_endpoint = round_coord (last (first_endpoint_no_rounded # others))
           in case check_endpoint_loop values rest of
                Inl e \<Rightarrow> Inl e
              | Inr l \<Rightarrow>
                  Inr (if py_or first_endpoint last_endpoint \<notin> set values
                       then endpoint_msg (tram_ID feature) # l else l)))"

definition check_endpoint_covered_point :: "workspace \<Rightarrow> exn + report list" where
  "check_endpoint_covered_point ws =
     (case check_endpoint_loop (map snd (get_round_point_coordinates ws)) (lin_tram_ppta ws) of
        Inl e \<Rightarrow> Inl e
      | Inr l \<Rightarrow>
          Inr (l @ (if l = [] then
                      [(INFO, ''      Tots els punts finals dels trams de la linia coincideixen amb una fita de la capa Punt.'')]
                    else [])))"

fun check_auxiliary_loop ::
  "workspace \<Rightarrow> coord list \<Rightarrow> (string \<times> coord) list \<Rightarrow> exn + report list" where
  "check_auxiliary_loop ws line_coords_list [] = Inr []"
| "check_auxiliary_loop ws line_coords_list (kv # rest) =
     (if snd kv \<notin> set line_coords_list \<and> fst kv \<in> set (get_ppf_list ws) then
        (case filter (\<lambda>r. pf_ID_PUNT r = fst kv) (punt_fit ws) of
           [] \<Rightarrow> Inl IndexError
         | point # _ \<Rightarrow>
             (case check_auxiliary_loop ws line_coords_list rest of
                Inl e \<Rightarrow> Inl e
              | Inr l \<Rightarrow>
                  Inr ((if pf_AUX point = Some ''1'' then
                          (INFO, ''      La fita F '' @ pf_ID_FITA point @ '' | ID PUNT '' @
                                 split_last (fst kv) @ '' no est'' @ a_grave @
                                 '' a sobre de la linia per'' @ o_grave @ '' '' @ e_acute @
                                 ''s auxiliar.'')
                        else
                          (ERROR, ''      La fita F '' @ pf_ID_FITA point @ '' | ID PUNT '' @
                                  split_last (fst kv) @ '' no est'' @ a_grave @
                                  '' a sobre de la linia i NO '' @ e_acute @ ''s auxiliar.'')) # l)))
      else check_auxiliary_loop ws line_coords_list rest)"

definition check_auxiliary_point :: "workspace \<Rightarrow> coord list \<Rightarrow> exn + report list" where
  \<comment> \<open>\<open>line_coords_list\<close> is the attribute \<^verbatim>\<open>get\<close> has set from
      \<^verbatim>\<open>get_round_line_coordinates\<close>\<close>
  "check_auxiliary_point ws line_coords_list =
     check_auxiliary_loop ws line_coords_list (get_round_point_coordinates ws)"

definition and_then :: "exn + report list \<Rightarrow> exn + report list \<Rightarrow> exn + report list" where
  \<comment> \<open>two steps in sequence: the first exception leaves the method\<close>
  "and_then a b =
     (case a of
        Inl e \<Rightarrow> Inl e
      | Inr l \<Rightarrow> (case b of Inl e \<Rightarrow> Inl e | Inr l' \<Rightarrow> Inr (l @ l')))"

definition check_topology :: "library \<Rightarrow> workspace \<Rightarrow> coord list \<Rightarrow> exn + report list" where
  "check_topology g ws line_coords_list =
     and_then (Inr ([(INFO, ''Iniciant controls topol'' @ o_grave @ ''gics...'')] @
                    check_line_crosses_itself g ws @
                    check_line_intersects_db g ws @
                    check_line_overlaps_db g ws))
       (and_then (check_endpoint_covered_point ws) (check_auxiliary_point ws line_coords_list))"

subsection \<open>The pipeline\<close>

record ingestion =
  line_dir_exists :: bool
  directory_tree_valid :: bool
  rm_temp_error :: "string option"
  entities_exist :: bool
  copied_data_ok :: bool

definition found_marker_checks :: "workspace \<Rightarrow> exn + report list" where
  \<comment> \<open>\<^verbatim>\<open>if self.founded_points_dict: self.check_found_points()\<close>\<close>
  "found_marker_checks ws =
     (if truthy_dict (get_founded_points_dict ws) then
        (case get_founded_points_dict ws of
           None \<Rightarrow> Inr []
         | Some d \<Rightarrow> check_found_points d ws)
      else Inr [])"

definition validators :: "library \<Rightarrow> workspace \<Rightarrow> coord list \<Rightarrow> exn + report list" where
  \<comment> \<open>the calls of \<^verbatim>\<open>get\<close> after the gate, in their order\<close>
  "validators g ws line_coords_list =
     and_then (Inr (check_layers_geometry g ws))
       (and_then (info_vertexs_line ws)
          (and_then (Inr (check_points_decimals ws @ info_p_proposta ws))
             (and_then (found_marker_checks ws)
                (and_then (check_3termes g ws)
                   (and_then (check_relation_points_tables ws)
                      (check_topology g ws line_coords_list))))))"

definition workspace_log :: "workspace \<Rightarrow> report list" where
  \<comment> \<open>what \<^verbatim>\<open>set_up\<close>, \<^verbatim>\<open>check_directories\<close>, \<^verbatim>\<open>rm_temp\<close> and \<^verbatim>\<open>copy_data_2_gpkg\<close>
      log when they succeed\<close>
  "workspace_log ws =
     write_first_report ws @
     [(INFO, ''Estructura de directoris OK''),
      (INFO, ''Arxius temporals esborrats''),
      (INFO, ''Capes i taules de la linia '' @ line_id ws @
             '' copiades correctament a CQline.gpkg'')]"

definition lin_tram_ppta_msg :: string where
  "lin_tram_ppta_msg =
     ''L'estructura de camps de Lin_TramPpta.shp no '' @ e_acute @
     ''s correcte i no es pot continuar el proc'' @ e_acute @
     ''s, donat que hi ha algun camp que falta o sobra a la capa. Si us plau, revisa-la.''"

definition start_checking ::
  "library \<Rightarrow> response_data \<Rightarrow> workspace \<Rightarrow> coord list \<Rightarrow> exn + response_data \<times> report list" where
  \<comment> \<open>\<^verbatim>\<open>get\<close> from START CHECKING on; the second component is what the run has logged\<close>
  "start_checking g rd ws line_coords_list =
     (case check_line_id_exists ws of
        Inl e \<Rightarrow> Inl e
      | Inr l1 \<Rightarrow>
          (case check_lin_tram_ppta_layer ws of
             Inl e \<Rightarrow> Inl e
           | Inr r \<Rightarrow>
               if \<not> fst r then
                 Inr (create_error_response rd lin_tram_ppta_msg,
                      workspace_log ws @ l1 @ snd r @ [(ERROR, lin_tram_ppta_msg)])
               else
                 (case validators g ws line_coords_list of
                    Inl e \<Rightarrow> Inl e
                  | Inr l3 \<Rightarrow>
                      (case add_response_data
                              (rd\<lparr>result := Some ''OK'',
                                  message := Some (''Linia '' @ line_id ws @ '' checkejada'')\<rparr>)
                              (workspace_log ws @ l1 @ snd r @ l3) of
                         Inl e \<Rightarrow> Inl e
                       | Inr resp \<Rightarrow> Inr (resp, workspace_log ws @ l1 @ snd r @ l3)))))"

definition gate_error :: "response_data \<Rightarrow> string \<Rightarrow> exn + response_data \<times> report list" where
  "gate_error rd msg = Inr (create_error_response rd msg, [(ERROR, msg)])"

definition get ::
  "library \<Rightarrow> ingestion \<Rightarrow> response_data \<Rightarrow> workspace \<Rightarrow> exn + response_data \<times> report list" where
  \<comment> \<open>a missing and an empty \<^verbatim>\<open>line_id\<close> parameter are both the empty string, and no
      log file is set up yet then; the log of a run stopped by a later workspace check is
      cut to its last line. \<open>rd\<close> is \<^verbatim>\<open>response_data\<close> as the process holds it when the
      request arrives. The coordinate structures are built before the checks start.\<close>
  "get g ing rd ws =
     (if line_id ws = [] then
        Inr (create_error_response rd (''No s'ha introdu'' @ i_diaer @ ''t cap ID Linia.''), [])
      else if \<not> line_dir_exists ing then
        gate_error rd (''No existeix la carpeta de la linia '' @ line_id ws @
                       '' al directori de c'' @ a_grave @ ''rrega.'')
      else if \<not> directory_tree_valid ing then
        gate_error rd (''L'estructura de directoris de la carpeta de la linia no '' @ e_acute @
                       ''s v'' @ a_grave @ ''lida. Si us plau, revisa'' @
                       '' que la carpeta DocDelim existeixi i que tots els seus subdirectoris tamb'' @
                       e_acute @ ''.'')
      else (case rm_temp_error ing of
              Some e \<Rightarrow> gate_error rd (''Error esborrant arxius temporals => '' @ e)
            | None \<Rightarrow>
                if \<not> entities_exist ing then
                  gate_error rd (''Falten capes o taules necessaries pel proc'' @ e_acute @
                                 ''s de control de qualitat. Si us plau, revisa que totes les capes i taules'' @
                                 '' estiguin a les carpetes 'Cartografia' i 'Taules'.'')
                else if \<not> copied_data_ok ing then
                  gate_error rd (''No s'han pogut copiar capes o taules. Veure log per m'' @ e_acute @
                                 ''s informaci'' @ o_acute @ ''.'')
                else (case get_round_line_coordinates ws of
                        Inl e \<Rightarrow> Inl e
                      | Inr line_coords_list \<Rightarrow> start_checking g rd ws line_coords_list)))"

definition workspace_checks_ok :: "ingestion \<Rightarrow> workspace \<Rightarrow> bool" where
  "workspace_checks_ok ing ws =
     (line_id ws \<noteq> [] \<and> line_dir_exists ing \<and> directory_tree_valid ing \<and>
      rm_temp_error ing = None \<and> entities_exist ing \<and> copied_data_ok ing)"

subsection \<open>A sample submission\<close>

text \<open>One segment from (0, 0) to (10, 0) of line 1, used to evaluate the checks on concrete
  layers. Markers, proposal records and found-marker records are added per example.\<close>

definition sample_tram :: tram where
  "sample_tram =
     \<lparr>tram_ID = ''1'', tram_ID_LINIA = 1, tram_ID_FITA1 = ''F1'', tram_ID_FITA2 = ''F2'',
      tram_geometry = LineString [XY 0 0, XY 10 0], tram_is_valid = True\<rparr>"

definition sample_punt :: "string \<Rightarrow> string \<Rightarrow> rat \<Rightarrow> rat \<Rightarrow> punt" where
  "sample_punt point_id etiqueta x y =
     \<lparr>punt_ID_PUNT = point_id, punt_ETIQUETA = etiqueta, punt_x = x, punt_y = y,
      punt_z = Some 0, punt_FOTOS = None, punt_CONTACTE = Some ''3T'',
      punt_is_empty = False, punt_is_valid = True\<rparr>"

definition sample_proposta :: "string \<Rightarrow> int \<Rightarrow> int \<Rightarrow> int option \<Rightarrow> proposta" where
  "sample_proposta point_id pff esfita ordpf =
     \<lparr>pp_ID_PUNT = point_id, pp_PFF = Some pff, pp_ESFITA = Some esfita, pp_ORDPF = ordpf\<rparr>"

definition sample_puntfit :: "string \<Rightarrow> string \<Rightarrow> string \<Rightarrow> string \<Rightarrow> puntfit" where
  "sample_puntfit point_id id_fita trobada aux =
     \<lparr>pf_ID_PUNT = point_id, pf_ID_FITA = id_fita, pf_TROBADA = Some trobada,
      pf_AUX = Some aux\<rparr>"

definition sample_ws :: workspace where
  "sample_ws =
     \<lparr>line_id = ''1'', line_id_txt = ''0001'', current_date = ''20210315-1027'',
      tram_line_mem = [], fita_mem = [], lin_tram_fields = true_fields,
      lin_tram_ppta = [sample_tram], punt_line = [], p_proposta = [], punt_fit = [],
      photo_folder = []\<rparr>"

definition sample_library :: library where
  \<comment> \<open>nothing crosses, nothing is joined, rows are sorted keeping ties in their order\<close>
  "sample_library =
     \<lparr>crosses = (\<lambda>a b. False), sjoin = (\<lambda>l r op. []),
      sort_values = (\<lambda>keys rows. map snd (sort_key fst (zip keys rows))),
      geoms_str = (\<lambda>parts. ''<GeometrySequence>'')\<rparr>"

definition fresh_response_data :: response_data where
  \<comment> \<open>\<^verbatim>\<open>response_data = {}\<close>, before the first run of a process\<close>
  "fresh_response_data = \<lparr>result = None, message = None, reports = None\<rparr>"

definition stale_response_data :: response_data where
  \<comment> \<open>what a complete run of line 2 has left in the dictionary\<close>
  "stale_response_data =
     \<lparr>result = Some ''OK'', message = Some ''Linia 2 checkejada'',
      reports = Some [\<lparr>level_txt = ''INFO '',
                       report_message = '' ID Linia : 0002 |  Data i hora CQ : 20210315''\<rparr>]\<rparr>"

definition sample_ingestion :: ingestion where
  "sample_ingestion =
     \<lparr>line_dir_exists = True, directory_tree_valid = True, rm_temp_error = None,
      entities_exist = True, copied_data_ok = True\<rparr>"

section \<open>Properties\<close>

lemma py_split_not_Nil: "py_split c s \<noteq> []"
  by (induction s) (auto split: list.splits)

subsection \<open>Proposal table\<close>

text \<open>
  C6. For every proposal record, wherever it stands in the table: a null ORDPF adds the
  record's own error entry to what \<^verbatim>\<open>check_ordpf\<close> reports; PFF = 1, ORDPF = 0 and ESFITA
  other than 0 adds the record's misclassified-auxiliary-point entry to what
  \<^verbatim>\<open>check_real_points\<close> reports; PFF = 1, ORDPF = 0 and ESFITA = 0 adds nothing to either.
\<close>

theorem proposal_record_entries:
  "(pp_ORDPF r = None \<longrightarrow>
      snd (check_ordpf (xs @ [r] @ ys)) =
        snd (check_ordpf xs) @ [ordpf_msg r] @ snd (check_ordpf ys) \<and>
      fst (ordpf_msg r) = ERROR) \<and>
   (pp_PFF r = Some 1 \<and> pp_ORDPF r = Some 0 \<and> pp_ESFITA r \<noteq> Some 0 \<longrightarrow>
      snd (check_real_points (xs @ [r] @ ys)) =
        snd (check_real_points xs) @ [real_points_msg r] @ snd (check_real_points ys) \<and>
      fst (real_points_msg r) = ERROR) \<and>
   (pp_PFF r = Some 1 \<and> pp_ORDPF r = Some 0 \<and> pp_ESFITA r = Some 0 \<longrightarrow>
      snd (check_ordpf (xs @ [r] @ ys)) = snd (check_ordpf xs) @ snd (check_ordpf ys) \<and>
      snd (check_real_points (xs @ [r] @ ys)) =
        snd (check_real_points xs) @ snd (check_real_points ys))"
  by (simp add: check_ordpf_def check_real_points_def bad_auxiliary_point_def
        ordpf_msg_def real_points_msg_def Let_def)

theorem proposal_record_entries_witness:
  "snd (check_ordpf ([sample_proposta ''L-6'' 1 1 (Some 3)] @
                     [sample_proposta ''L-7'' 1 1 None] @ [])) =
     [(ERROR, ''      El camp ORDPF del punt 7 a la taula PUNT_FIT '' @ e_acute @ ''s nul.'')] \<and>
   snd (check_real_points ([] @ [sample_proposta ''L-8'' 1 1 (Some 0)] @ [])) =
     [(ERROR, ''      El punt amb ID PUNT : 8 est'' @ a_grave @
              '' mal indicat a P_Proposta: sembla que es tracta d'una fita auxiliar indicada com a fita real'')] \<and>
   snd (check_ordpf ([] @ [sample_proposta ''L-9'' 1 0 (Some 0)] @ [])) = [] \<and>
   snd (check_real_points ([] @ [sample_proposta ''L-9'' 1 0 (Some 0)] @ [])) = []"
proof -
  have a: "snd (check_ordpf [sample_proposta ''L-6'' 1 1 (Some 3)]) = []"
    and b: "snd (check_ordpf []) = []" and c: "snd (check_real_points []) = []"
    by (simp_all add: check_ordpf_def check_real_points_def sample_proposta_def)
  have m1: "ordpf_msg (sample_proposta ''L-7'' 1 1 None) =
      (ERROR, ''      El camp ORDPF del punt 7 a la taula PUNT_FIT '' @ e_acute @ ''s nul.'')"
    by (simp add: ordpf_msg_def sample_proposta_def split_last_def)
  have m2: "real_points_msg (sample_proposta ''L-8'' 1 1 (Some 0)) =
      (ERROR, ''      El punt amb ID PUNT : 8 est'' @ a_grave @
              '' mal indicat a P_Proposta: sembla que es tracta d'una fita auxiliar indicada com a fita real'')"
    by (simp add: real_points_msg_def sample_proposta_def split_last_def)
  have h1: "pp_ORDPF (sample_proposta ''L-7'' 1 1 None) = None"
    and h2: "pp_PFF (sample_proposta ''L-8'' 1 1 (Some 0)) = Some 1 \<and>
             pp_ORDPF (sample_proposta ''L-8'' 1 1 (Some 0)) = Some 0 \<and>
             pp_ESFITA (sample_proposta ''L-8'' 1 1 (Some 0)) \<noteq> Some 0"
    and h3: "pp_PFF (sample_proposta ''L-9'' 1 0 (Some 0)) = Some 1 \<and>
             pp_ORDPF (sample_proposta ''L-9'' 1 0 (Some 0)) = Some 0 \<and>
             pp_ESFITA (sample_proposta ''L-9'' 1 0 (Some 0)) = Some 0"
    by (simp_all add: sample_proposta_def)
  show ?thesis
    using proposal_record_entries[of "sample_proposta ''L-7'' 1 1 None"
            "[sample_proposta ''L-6'' 1 1 (Some 3)]" "[]"]
          proposal_record_entries[of "sample_proposta ''L-8'' 1 1 (Some 0)" "[]" "[]"]
          proposal_record_entries[of "sample_proposta ''L-9'' 1 0 (Some 0)" "[]" "[]"]
          h1 h2 h3 a b c m1 m2
    by simp
qed

subsection \<open>Reference lines\<close>

text \<open>
  C5. The intersection check and the overlap check both join the submitted segments with
  the reference lines under the predicate \<^verbatim>\<open>contains\<close>. Their error entries are the
  two messages mapped over the same joined rows, so a segment identifier is reported as
  an intersection if and only if it is reported as an overlap.
\<close>

theorem reference_line_checks_same_segments:
  "errors_of (check_line_intersects_db g ws) =
     map (\<lambda>t. intersects_msg (tram_ID t))
       (sjoin g (lin_tram_ppta ws) (tram_line_mem ws) ''contains'') \<and>
   errors_of (check_line_overlaps_db g ws) =
     map (\<lambda>t. overlaps_msg (tram_ID t))
       (sjoin g (lin_tram_ppta ws) (tram_line_mem ws) ''contains'') \<and>
   (intersects_msg tram_id \<in> set (check_line_intersects_db g ws) \<longleftrightarrow>
    overlaps_msg tram_id \<in> set (check_line_overlaps_db g ws))"
proof -
  let ?rows = "sjoin g (lin_tram_ppta ws) (tram_line_mem ws) ''contains''"
  have fi: "filter (\<lambda>r. fst r = ERROR) (map (\<lambda>t. intersects_msg (tram_ID t)) xs) =
            map (\<lambda>t. intersects_msg (tram_ID t)) xs" for xs :: "tram list"
    by (induction xs) (simp_all add: intersects_msg_def)
  have fo: "filter (\<lambda>r. fst r = ERROR) (map (\<lambda>t. overlaps_msg (tram_ID t)) xs) =
            map (\<lambda>t. overlaps_msg (tram_ID t)) xs" for xs :: "tram list"
    by (induction xs) (simp_all add: overlaps_msg_def)
  have e1: "errors_of (check_line_intersects_db g ws) =
              map (\<lambda>t. intersects_msg (tram_ID t)) ?rows"
    by (simp add: errors_of_def check_line_intersects_db_def Let_def fi)
  have e2: "errors_of (check_line_overlaps_db g ws) =
              map (\<lambda>t. overlaps_msg (tram_ID t)) ?rows"
    by (simp add: errors_of_def check_line_overlaps_db_def Let_def fo)
  have m1: "intersects_msg tram_id \<in> set (check_line_intersects_db g ws) \<longleftrightarrow>
            tram_id \<in> tram_ID ` set ?rows"
    by (auto simp: check_line_intersects_db_def Let_def intersects_msg_def)
  have m2: "overlaps_msg tram_id \<in> set (check_line_overlaps_db g ws) \<longleftrightarrow>
            tram_id \<in> tram_ID ` set ?rows"
    by (auto simp: check_line_overlaps_db_def Let_def overlaps_msg_def)
  show ?thesis using e1 e2 m1 m2 by simp
qed


theorem reference_line_checks_same_segments_witness:
  "errors_of (check_line_intersects_db
      (sample_library\<lparr>sjoin := (\<lambda>l r op. if op = ''contains'' then l else [])\<rparr>)
      sample_ws) = [intersects_msg ''1''] \<and>
   errors_of (check_line_overlaps_db
      (sample_library\<lparr>sjoin := (\<lambda>l r op. if op = ''contains'' then l else [])\<rparr>)
      sample_ws) = [overlaps_msg ''1'']"
  using reference_line_checks_same_segments
    [of "sample_library\<lparr>sjoin := (\<lambda>l r op. if op = ''contains'' then l else [])\<rparr>"
        sample_ws "''1''"]
  by (simp add: sample_ws_def sample_tram_def)

subsection \<open>Gate of the found-marker checks\<close>

lemma dict_set_not_Nil: "dict_set d k v \<noteq> []"
  by (cases d) (auto split: if_splits)

lemma dict_of_Nil_iff: "dict_of kvs = [] \<longleftrightarrow> kvs = []"
  by (induction kvs rule: rev_induct) (simp_all add: dict_of_def dict_set_not_Nil)

lemma check_photo_exists_not_Nil: "check_photo_exists d ws \<noteq> []"
  by (simp add: check_photo_exists_def Let_def)

lemma check_found_points_not_Nil: "check_found_points d ws \<noteq> Inr []"
  by (simp add: check_found_points_def check_photo_exists_not_Nil split: sum.splits)

text \<open>
  C9 (amended). The found-marker checks are executed if and only if at least one record
  of the found-marker table has TROBADA = '1' and an identifier that belongs to a
  final-proposed point; a run of the checks is never silent (it raises or logs at least
  one entry), so their absence from the log shows they did not run.
\<close>

theorem found_marker_checks_gate:
  "found_marker_checks ws =
     (if \<exists>r \<in> set (punt_fit ws). pf_TROBADA r = Some ''1'' \<and> pf_ID_PUNT r \<in> set (get_ppf_list ws)
      then check_found_points
             (dict_of (map (\<lambda>r. (pf_ID_FITA r, pf_ID_PUNT r))
                (filter (\<lambda>r. pf_ID_PUNT r \<in> set (get_ppf_list ws))
                   (filter (\<lambda>r. pf_TROBADA r = Some ''1'') (punt_fit ws))))) ws
      else Inr []) \<and>
   check_found_points d ws \<noteq> Inr []"
proof -
  let ?found = "filter (\<lambda>r. pf_TROBADA r = Some ''1'') (punt_fit ws)"
  let ?fppf = "filter (\<lambda>r. pf_ID_PUNT r \<in> set (get_ppf_list ws)) ?found"
  have e: "(\<exists>r \<in> set (punt_fit ws). pf_TROBADA r = Some ''1'' \<and> pf_ID_PUNT r \<in> set (get_ppf_list ws))
           \<longleftrightarrow> ?fppf \<noteq> []"
    by (auto simp: filter_empty_conv)
  have "found_marker_checks ws =
     (if ?fppf \<noteq> [] then check_found_points (dict_of (map (\<lambda>r. (pf_ID_FITA r, pf_ID_PUNT r)) ?fppf)) ws
      else Inr [])"
  proof (cases "?found = []")
    case True
    then show ?thesis
      by (simp add: found_marker_checks_def get_founded_points_dict_def truthy_dict_def Let_def)
  next
    case False
    then show ?thesis
      by (simp add: found_marker_checks_def get_founded_points_dict_def truthy_dict_def Let_def
            dict_of_Nil_iff)
  qed
  then show ?thesis using e check_found_points_not_Nil by simp
qed

theorem found_marker_checks_gate_witness:
  "found_marker_checks (sample_ws
        \<lparr>punt_line := [sample_punt ''L-1'' ''F-1'' 0 0],
         p_proposta := [sample_proposta ''L-1'' 1 1 (Some 1)],
         punt_fit := [sample_puntfit ''L-1'' ''F-1'' ''1'' ''0'']\<rparr>) =
     Inr [(ERROR, ''      La fita 1  |  ID PUNT : 1 '' @ e_acute @ ''s trobada per'' @ o_grave @
                  '' no t'' @ e_acute @ '' cap fotografia indicada.''),
          (INFO, ''Totes les fotografies informades a la capa Punt estan a la carpeta de Fotografies.''),
          (INFO, ''Totes les fites amb coordenada Z s'' @ o_acute @ ''n trobades'')] \<and>
   found_marker_checks (sample_ws
        \<lparr>punt_line := [sample_punt ''L-1'' ''F-1'' 0 0],
         p_proposta := [sample_proposta ''L-1'' 1 1 (Some 1)],
         punt_fit := [sample_puntfit ''L-1'' ''F-1'' ''0'' ''0'']\<rparr>) = Inr []"
proof -
  let ?a = "sample_ws
        \<lparr>punt_line := [sample_punt ''L-1'' ''F-1'' 0 0],
         p_proposta := [sample_proposta ''L-1'' 1 1 (Some 1)],
         punt_fit := [sample_puntfit ''L-1'' ''F-1'' ''1'' ''0'']\<rparr>"
  let ?b = "sample_ws
        \<lparr>punt_line := [sample_punt ''L-1'' ''F-1'' 0 0],
         p_proposta := [sample_proposta ''L-1'' 1 1 (Some 1)],
         punt_fit := [sample_puntfit ''L-1'' ''F-1'' ''0'' ''0'']\<rparr>"
  have ha: "\<exists>r \<in> set (punt_fit ?a). pf_TROBADA r = Some ''1'' \<and> pf_ID_PUNT r \<in> set (get_ppf_list ?a)"
    by code_simp
  have hb: "\<not> (\<exists>r \<in> set (punt_fit ?b). pf_TROBADA r = Some ''1'' \<and> pf_ID_PUNT r \<in> set (get_ppf_list ?b))"
    by code_simp
  have ea: "check_found_points
             (dict_of (map (\<lambda>r. (pf_ID_FITA r, pf_ID_PUNT r))
                (filter (\<lambda>r. pf_ID_PUNT r \<in> set (get_ppf_list ?a))
                   (filter (\<lambda>r. pf_TROBADA r = Some ''1'') (punt_fit ?a))))) ?a =
     Inr [(ERROR, ''      La fita 1  |  ID PUNT : 1 '' @ e_acute @ ''s trobada per'' @ o_grave @
                  '' no t'' @ e_acute @ '' cap fotografia indicada.''),
          (INFO, ''Totes les fotografies informades a la capa Punt estan a la carpeta de Fotografies.''),
          (INFO, ''Totes les fites amb coordenada Z s'' @ o_acute @ ''n trobades'')]"
    by code_simp
  have a: "found_marker_checks ?a = check_found_points
             (dict_of (map (\<lambda>r. (pf_ID_FITA r, pf_ID_PUNT r))
                (filter (\<lambda>r. pf_ID_PUNT r \<in> set (get_ppf_list ?a))
                   (filter (\<lambda>r. pf_TROBADA r = Some ''1'') (punt_fit ?a))))) ?a"
    using conjunct1[OF found_marker_checks_gate[of ?a]] ha by (simp only: if_True)
  have b: "found_marker_checks ?b = Inr []"
    using conjunct1[OF found_marker_checks_gate[of ?b]] hb by (simp only: if_False)
  show ?thesis using a b ea by (simp only: simp_thms)
qed

theorem found_marker_checks_counterexample:
  "filter (\<lambda>r. pf_TROBADA r = Some ''1'')
     (punt_fit (sample_ws
        \<lparr>punt_line := [sample_punt ''L-1'' ''F-1'' 0 0],
         p_proposta := [sample_proposta ''L-1'' 0 1 (Some 1)],
         punt_fit := [sample_puntfit ''L-1'' ''F-1'' ''1'' ''0'']\<rparr>)) =
     [sample_puntfit ''L-1'' ''F-1'' ''1'' ''0''] \<and>
   found_marker_checks (sample_ws
        \<lparr>punt_line := [sample_punt ''L-1'' ''F-1'' 0 0],
         p_proposta := [sample_proposta ''L-1'' 0 1 (Some 1)],
         punt_fit := [sample_puntfit ''L-1'' ''F-1'' ''1'' ''0'']\<rparr>) = Inr []"
  by code_simp

subsection \<open>Cross-table referential check\<close>

lemma p_proposta_loop_snd:
  "snd (p_proposta_loop ids ps pid) =
     map (\<lambda>r. p_proposta_msg (split_last (pp_ID_PUNT r)))
       (filter (\<lambda>r. pp_ID_PUNT r \<notin> set ids) ps)"
  by (induction ps arbitrary: pid) (simp_all add: Let_def)

text \<open>
  C8 (defect of the code). The identifier L-7 is referenced by one record of the
  found-marker table and is absent from the marker-point layer, which holds L-8. The
  check emits one referential error entry, but the entry names 8, the identifier of the
  last proposal record: the loop over the found-marker table formats the variable
  \<^verbatim>\<open>point_id\<close> left by the loop over the proposal table instead of its own
  \<^verbatim>\<open>point_id_\<close>. With an empty proposal table that variable is unbound and the check
  raises instead of reporting.
\<close>

theorem punt_fit_pass_names_other_identifier:
  "check_relation_points_tables (sample_ws
       \<lparr>punt_line := [sample_punt ''L-8'' ''F-8'' 0 0],
        p_proposta := [sample_proposta ''L-8'' 1 1 (Some 1)],
        punt_fit := [sample_puntfit ''L-7'' ''F-7'' ''0'' ''0'']\<rparr>) =
     Inr [(INFO, ''Comprovant correspond'' @ e_grave @ ''ncia entre les taules i la capa Punt...''),
          (INFO, ''      Correspond'' @ e_grave @ ''ncia OK entre els punts de P_PROPOSTA i Punt.''),
          (ERROR, ''El registre amb ID PUNT : 8 de la taula PUNT_FIT no est'' @ a_grave @
                  '' a la capa Punt.'')] \<and>
   check_relation_points_tables (sample_ws
       \<lparr>punt_line := [sample_punt ''L-8'' ''F-8'' 0 0],
        punt_fit := [sample_puntfit ''L-7'' ''F-7'' ''0'' ''0'']\<rparr>) = Inl UnboundLocalError"
  by code_simp

subsection \<open>Runs that end without a result\<close>

text \<open>
  C1 (defect of the code). The workspace checks and the schema check pass on the
  submission below. Marker L-2 is a final-proposed point that lies off the line and has
  no record in the found-marker table; the auxiliary-point classification indexes into
  the empty selection and the IndexError leaves \<^verbatim>\<open>get\<close>: the run returns no result,
  neither status ok nor status error.
\<close>

theorem get_raises_on_unrecorded_marker:
  "workspace_checks_ok sample_ingestion (sample_ws
         \<lparr>punt_line := [sample_punt ''L-1'' ''F-1'' 0 0, sample_punt ''L-2'' ''F-2'' 5 5,
                        sample_punt ''L-3'' ''F-3'' 10 0],
          p_proposta := [sample_proposta ''L-1'' 1 1 (Some 1), sample_proposta ''L-2'' 1 1 (Some 2),
                         sample_proposta ''L-3'' 1 1 (Some 3)]\<rparr>) \<and>
   fst (check_fields_lin_tram_ppta (sample_ws
         \<lparr>punt_line := [sample_punt ''L-1'' ''F-1'' 0 0, sample_punt ''L-2'' ''F-2'' 5 5,
                        sample_punt ''L-3'' ''F-3'' 10 0],
          p_proposta := [sample_proposta ''L-1'' 1 1 (Some 1), sample_proposta ''L-2'' 1 1 (Some 2),
                         sample_proposta ''L-3'' 1 1 (Some 3)]\<rparr>)) \<and>
   get sample_library sample_ingestion fresh_response_data (sample_ws
         \<lparr>punt_line := [sample_punt ''L-1'' ''F-1'' 0 0, sample_punt ''L-2'' ''F-2'' 5 5,
                        sample_punt ''L-3'' ''F-3'' 10 0],
          p_proposta := [sample_proposta ''L-1'' 1 1 (Some 1), sample_proposta ''L-2'' 1 1 (Some 2),
                         sample_proposta ''L-3'' 1 1 (Some 3)]\<rparr>) = Inl IndexError"
  by code_simp

text \<open>What does hold: past the schema check a run that returns a result returns status
  OK with the generic message and the re-parsed reports, whatever the validators
  logged.\<close>

lemma get_status_ok:
  "workspace_checks_ok ing ws \<Longrightarrow> fst (check_fields_lin_tram_ppta ws) \<Longrightarrow>
   get g ing rd ws = Inr (resp, lg) \<Longrightarrow>
   result resp = Some ''OK'' \<and> message resp = Some (''Linia '' @ line_id ws @ '' checkejada'') \<and>
   reports resp \<noteq> None"
  by (auto simp: get_def workspace_checks_ok_def start_checking_def add_response_data_def
        check_lin_tram_ppta_layer_def Let_def split: sum.splits if_splits)

subsection \<open>Reports of the response\<close>

text \<open>
  C3 (defect of the code). The first entry of every run carries the date in the format
  \<^verbatim>\<open>%Y%m%d-%H%M\<close>. \<^verbatim>\<open>add_response_data\<close> keeps of each log line only the text between
  its first and its second \<^verbatim>\<open>-\<close>, so the entry comes back without the time of day;
  the same holds at the head of the reports of a complete run.
\<close>

theorem first_report_truncated:
  "write_first_report sample_ws =
     [(INFO, ''ID Linia : 0001 |  Data i hora CQ : 20210315-1027'')] \<and>
   add_response_data
     (fresh_response_data\<lparr>result := Some ''OK'', message := Some ''Linia 1 checkejada''\<rparr>)
     (write_first_report sample_ws) =
     Inr \<lparr>result = Some ''OK'', message = Some ''Linia 1 checkejada'',
          reports = Some [\<lparr>level_txt = ''INFO '',
                           report_message = '' ID Linia : 0001 |  Data i hora CQ : 20210315''\<rparr>]\<rparr> \<and>
   case_sum (\<lambda>e. None)
     (\<lambda>r. Some (take 1 (snd r), map_option (take 1) (reports (fst r))))
     (get sample_library sample_ingestion fresh_response_data (sample_ws
         \<lparr>punt_line := [sample_punt ''L-1'' ''F-1'' 0 0, sample_punt ''L-3'' ''F-3'' 10 0],
          p_proposta := [sample_proposta ''L-1'' 1 1 (Some 1),
                         sample_proposta ''L-3'' 1 1 (Some 3)]\<rparr>)) =
     Some ([(INFO, ''ID Linia : 0001 |  Data i hora CQ : 20210315-1027'')],
           Some [\<lparr>level_txt = ''INFO '',
                   report_message = '' ID Linia : 0001 |  Data i hora CQ : 20210315''\<rparr>])"
  by code_simp

subsection \<open>Endpoint coverage\<close>

text \<open>
  C4 (defect of the code). The segment runs from (0, 0) to (10, 0) and the only marker
  is at (0, 0). The last endpoint matches no marker, yet the check reports no error for
  the segment: \<^verbatim>\<open>(first_endpoint or last_endpoint)\<close> is the first endpoint, the last one
  is never looked up.
\<close>

theorem endpoint_check_ignores_last_endpoint:
  "tram_geometry sample_tram = LineString [XY 0 0, XY 10 0] \<and>
   map snd (get_round_point_coordinates (sample_ws\<lparr>punt_line := [sample_punt ''L-1'' ''F-1'' 0 0]\<rparr>)) =
     [(0, 0)] \<and>
   round_coord (XY 10 0) = (10, 0) \<and>
   check_endpoint_covered_point (sample_ws\<lparr>punt_line := [sample_punt ''L-1'' ''F-1'' 0 0]\<rparr>) =
     Inr [(INFO, ''      Tots els punts finals dels trams de la linia coincideixen amb una fita de la capa Punt.'')]"
  by code_simp

end
